theory Spec2Isabelle
  imports Complex_Main
begin

section \<open>Python values, exceptions and time\<close>

text \<open>
  The generation-record store of \<^verbatim>\<open>backend/database\<close>: the SQLAlchemy models of
  \<^verbatim>\<open>models.py\<close> and the operations of \<^verbatim>\<open>operations.py\<close>.

  Conventions of the embedding.
  \<^item> Python \<^verbatim>\<open>float\<close> values are finite and exact: a float is a \<^typ>\<open>rat\<close>. Binary
    rounding error, infinities and NaN are outside the model.
  \<^item> A \<^verbatim>\<open>datetime\<close> is the number of microseconds since \<^verbatim>\<open>datetime.min\<close>
    (0001-01-01T00:00:00); a \<^verbatim>\<open>timedelta\<close> is a number of microseconds. The
    \<^verbatim>\<open>OverflowError\<close> Python raises for a \<^verbatim>\<open>timedelta\<close> or a \<^verbatim>\<open>datetime\<close> out of
    range is a branch of the model. Every reading of a clock is a parameter: \<open>utcnow\<close>
    for \<^verbatim>\<open>datetime.utcnow()\<close>, \<open>db_now\<close> for the database's \<^verbatim>\<open>func.now()\<close>.
  \<^item> A table is the list of its rows; the position of a row stands for its primary key.
    A session is passed in and returned; \<^verbatim>\<open>rollback\<close> returns the session it was given.
    Each operation sees one state of the tables. Faults of the database connection itself
    are outside the model.
  \<^item> The values of an input dictionary are \<^verbatim>\<open>None\<close>, booleans, integers, floats and
    strings.
  \<^item> Every \<^verbatim>\<open>except Exception\<close> handler is a \<open>case\<close> on the sum \<open>py_error + 'a\<close>. Log
    output is not modelled.
\<close>

datatype py_error =
  ValueError | TypeError | KeyError | OverflowError | ZeroDivisionError | OSError
  | IntegrityError | StatementError

datatype pyval = PNone | PBool bool | PInt int | PFloat rat | PStr string

type_synonym datetime = int
type_synonym timedelta = int

definition bind_err :: "'e + 'a \<Rightarrow> ('a \<Rightarrow> 'e + 'b) \<Rightarrow> 'e + 'b" where
  "bind_err m f = (case m of Inl e \<Rightarrow> Inl e | Inr x \<Rightarrow> f x)"

definition datetime_max :: datetime where
  \<comment> \<open>\<^verbatim>\<open>datetime.max\<close> = 9999-12-31T23:59:59.999999; \<^verbatim>\<open>date.max.toordinal()\<close> is 3652059\<close>
  "datetime_max = 3652059 * 86400000000 - 1"

definition timedelta_days :: "int \<Rightarrow> py_error + timedelta" where
  \<comment> \<open>\<^verbatim>\<open>timedelta(days=d)\<close>: the magnitude of the days is at most 999999999\<close>
  "timedelta_days d =
     (if \<bar>d\<bar> > 999999999 then Inl OverflowError else Inr (d * 86400000000))"

definition timedelta_hours :: "int \<Rightarrow> timedelta" where
  "timedelta_hours h = h * 3600000000"

definition datetime_sub :: "datetime \<Rightarrow> timedelta \<Rightarrow> py_error + datetime" where
  \<comment> \<open>\<^verbatim>\<open>dt - delta\<close>: "date value out of range" outside \<^verbatim>\<open>datetime.min .. datetime.max\<close>\<close>
  "datetime_sub t delta =
     (let r = t - delta
      in if r < 0 \<or> datetime_max < r then Inl OverflowError else Inr r)"

definition truediv :: "rat \<Rightarrow> rat \<Rightarrow> py_error + rat" where
  \<comment> \<open>Python's \<^verbatim>\<open>a / b\<close>\<close>
  "truediv a b = (if b = 0 then Inl ZeroDivisionError else Inr (a / b))"

definition round_half_even :: "rat \<Rightarrow> int" where
  "round_half_even x =
     (let f = \<lfloor>x\<rfloor>; d = x - of_int f
      in if d < 1 / 2 then f else if 1 / 2 < d then f + 1
         else if even f then f else f + 1)"

definition round2 :: "rat \<Rightarrow> rat" where
  \<comment> \<open>\<^verbatim>\<open>round(x, 2)\<close>: to the nearest multiple of 0.01, ties to the even one\<close>
  "round2 x = of_int (round_half_even (x * 100)) / 100"


section \<open>The models (\<^verbatim>\<open>models.py\<close>)\<close>

record MusicGeneration =
  generation_id :: string
  prompt :: string
  status :: string
  device :: string
  precision :: string
  generation_time :: rat
  realtime_factor :: rat
  file_path :: "string option"
  audio_url :: "string option"
  file_size_mb :: rat
  duration :: rat
  sample_rate :: int
  play_count :: int
  download_count :: int
  is_favorited :: bool
  last_played :: "datetime option"
  created_at :: datetime
  updated_at :: "datetime option"
  user_id :: "int option"
  error_message :: "string option"
  model_version :: string

record SystemMetrics =
  timestamp :: datetime
  cpu_usage :: "rat option"
  memory_usage :: "rat option"
  gpu_usage :: "rat option"
  gpu_memory_usage :: "rat option"
  disk_usage :: "rat option"
  model_loaded :: bool
  model_load_time :: "rat option"
  active_generations :: int
  response_time_avg :: "rat option"
  error_rate :: rat
  requests_per_minute :: int

record session =
  music_generations :: "MusicGeneration list"
  system_metrics :: "SystemMetrics list"

definition increment_play_count :: "datetime \<Rightarrow> MusicGeneration \<Rightarrow> MusicGeneration" where
  \<comment> \<open>\<^verbatim>\<open>self.play_count += 1; self.last_played = datetime.utcnow()\<close>\<close>
  "increment_play_count utcnow g =
     g\<lparr>play_count := play_count g + 1, last_played := Some utcnow\<rparr>"

definition toggle_favorite_row :: "MusicGeneration \<Rightarrow> MusicGeneration \<times> bool" where
  \<comment> \<open>\<^verbatim>\<open>MusicGeneration.toggle_favorite\<close>: flips the flag and returns the new flag\<close>
  "toggle_favorite_row g =
     (let g' = g\<lparr>is_favorited := \<not> is_favorited g\<rparr> in (g', is_favorited g'))"

definition flush_update :: "datetime \<Rightarrow> MusicGeneration \<Rightarrow> MusicGeneration" where
  \<comment> \<open>the UPDATE of a changed row: column \<^verbatim>\<open>updated_at\<close> is declared with
      \<^verbatim>\<open>onupdate=func.now()\<close>, so every UPDATE sets it to the database's clock\<close>
  "flush_update db_now g = g\<lparr>updated_at := Some db_now\<rparr>"

section \<open>Interaction counters (\<^verbatim>\<open>operations.py\<close>)\<close>

fun query_first :: "('a \<Rightarrow> bool) \<Rightarrow> 'a list \<Rightarrow> nat option" where
  \<comment> \<open>\<^verbatim>\<open>query.filter(p).first()\<close>: the position of the first row that satisfies \<open>p\<close>\<close>
  "query_first p [] = None"
| "query_first p (x # xs) =
     (if p x then Some 0 else map_option Suc (query_first p xs))"

definition record_play ::
  "datetime \<Rightarrow> datetime \<Rightarrow> session \<Rightarrow> string \<Rightarrow> rat option \<Rightarrow> session \<times> bool" where
  "record_play utcnow db_now s gid play_duration =
     (case query_first (\<lambda>g. generation_id g = gid) (music_generations s) of
        None \<Rightarrow> (s, False)
      | Some i \<Rightarrow>
          (let generation = increment_play_count utcnow (music_generations s ! i)
           in (s\<lparr>music_generations :=
                    (music_generations s)[i := flush_update db_now generation]\<rparr>,
               True)))"

definition toggle_favorite :: "datetime \<Rightarrow> session \<Rightarrow> string \<Rightarrow> session \<times> bool option" where
  "toggle_favorite db_now s gid =
     (case query_first (\<lambda>g. generation_id g = gid) (music_generations s) of
        None \<Rightarrow> (s, None)
      | Some i \<Rightarrow>
          (case toggle_favorite_row (music_generations s ! i) of
             (generation, new_status) \<Rightarrow>
               (s\<lparr>music_generations :=
                    (music_generations s)[i := flush_update db_now generation]\<rparr>,
                Some new_status)))"

section \<open>Validation and creation\<close>

text \<open>
  The creation input is a Python \<^verbatim>\<open>dict\<close> from field names to values. The built-ins
  \<^verbatim>\<open>str(v)\<close> and \<^verbatim>\<open>float(s)\<close> on a string are library code: the model takes them as
  the parameters \<open>str_of\<close> and \<open>float_of_str\<close> (\<open>None\<close> where \<^verbatim>\<open>float\<close> raises
  \<^verbatim>\<open>ValueError\<close>).
\<close>

datatype expected_type = Str | Float

definition required_fields :: "(string \<times> expected_type) list" where
  "required_fields =
     [(''generation_id'', Str), (''prompt'', Str), (''device'', Str),
      (''generation_time'', Float), (''file_size_mb'', Float)]"

definition defaults :: "(string \<times> pyval) list" where
  "defaults =
     [(''status'', PStr ''completed''), (''precision'', PStr ''float32''),
      (''realtime_factor'', PFloat 1), (''duration'', PFloat 30),
      (''sample_rate'', PInt 32000), (''play_count'', PInt 0),
      (''download_count'', PInt 0), (''is_favorited'', PBool False),
      (''model_version'', PStr ''musicgen-small'')]"

fun isinstance :: "pyval \<Rightarrow> expected_type \<Rightarrow> bool" where
  "isinstance (PStr s) Str = True"
| "isinstance (PFloat r) Float = True"
| "isinstance v ty = False"

fun convert ::
  "(pyval \<Rightarrow> string) \<Rightarrow> (string \<Rightarrow> rat option) \<Rightarrow> expected_type \<Rightarrow> pyval
     \<Rightarrow> py_error + pyval" where
  \<comment> \<open>\<^verbatim>\<open>expected_type(data[field])\<close>: \<^verbatim>\<open>str\<close> accepts every value; \<^verbatim>\<open>float\<close> raises
      \<^verbatim>\<open>TypeError\<close> on \<^verbatim>\<open>None\<close>, \<^verbatim>\<open>ValueError\<close> on a string that is no number and
      \<^verbatim>\<open>OverflowError\<close> on an integer beyond the largest float\<close>
  "convert str_of float_of_str Str v = Inr (PStr (str_of v))"
| "convert str_of float_of_str Float PNone = Inl TypeError"
| "convert str_of float_of_str Float (PBool b) = Inr (PFloat (if b then 1 else 0))"
| "convert str_of float_of_str Float (PInt i) =
     (if 2 ^ 1024 - 2 ^ 970 \<le> \<bar>i\<bar> then Inl OverflowError else Inr (PFloat (of_int i)))"
| "convert str_of float_of_str Float (PFloat r) = Inr (PFloat r)"
| "convert str_of float_of_str Float (PStr s) =
     (case float_of_str s of None \<Rightarrow> Inl ValueError | Some r \<Rightarrow> Inr (PFloat r))"

fun check_required ::
  "(pyval \<Rightarrow> string) \<Rightarrow> (string \<Rightarrow> rat option) \<Rightarrow> (string \<times> expected_type) list
     \<Rightarrow> (string \<rightharpoonup> pyval) \<Rightarrow> py_error + (string \<rightharpoonup> pyval)" where
  \<comment> \<open>the loop over \<^verbatim>\<open>required_fields.items()\<close>; the handler turns \<^verbatim>\<open>ValueError\<close> and
      \<^verbatim>\<open>TypeError\<close> of the conversion into \<^verbatim>\<open>ValueError\<close>, other exceptions pass\<close>
  "check_required str_of float_of_str [] data = Inr data"
| "check_required str_of float_of_str ((field, ty) # rest) data =
     (case data field of
        None \<Rightarrow> Inl ValueError
      | Some v \<Rightarrow>
          if isinstance v ty then check_required str_of float_of_str rest data
          else (case convert str_of float_of_str ty v of
                  Inl e \<Rightarrow> if e = ValueError \<or> e = TypeError then Inl ValueError else Inl e
                | Inr v' \<Rightarrow>
                    check_required str_of float_of_str rest (data(field \<mapsto> v'))))"

fun apply_defaults :: "(string \<times> pyval) list \<Rightarrow> (string \<rightharpoonup> pyval) \<Rightarrow> (string \<rightharpoonup> pyval)" where
  "apply_defaults [] data = data"
| "apply_defaults ((field, default_value) # rest) data =
     apply_defaults rest
       (if data field = None \<or> data field = Some PNone
        then data(field \<mapsto> default_value) else data)"

definition getitem :: "(string \<rightharpoonup> pyval) \<Rightarrow> string \<Rightarrow> py_error + pyval" where
  \<comment> \<open>\<^verbatim>\<open>data[field]\<close>\<close>
  "getitem data field = (case data field of None \<Rightarrow> Inl KeyError | Some v \<Rightarrow> Inr v)"

definition get :: "(string \<rightharpoonup> pyval) \<Rightarrow> string \<Rightarrow> pyval" where
  \<comment> \<open>\<^verbatim>\<open>data.get(field)\<close>\<close>
  "get data field = (case data field of None \<Rightarrow> PNone | Some v \<Rightarrow> v)"

fun le_zero :: "pyval \<Rightarrow> py_error + bool" where
  \<comment> \<open>\<^verbatim>\<open>v <= 0\<close>\<close>
  "le_zero (PFloat r) = Inr (r \<le> 0)"
| "le_zero (PInt i) = Inr (i \<le> 0)"
| "le_zero (PBool b) = Inr (\<not> b)"
| "le_zero (PStr s) = Inl TypeError"
| "le_zero PNone = Inl TypeError"

definition validate_generation_data ::
  "(pyval \<Rightarrow> string) \<Rightarrow> (string \<Rightarrow> rat option) \<Rightarrow> (string \<rightharpoonup> pyval)
     \<Rightarrow> py_error + (string \<rightharpoonup> pyval)" where
  "validate_generation_data str_of float_of_str data0 =
     bind_err (check_required str_of float_of_str required_fields data0) (\<lambda>data1.
       let data = apply_defaults defaults data1 in
       bind_err (bind_err (getitem data ''generation_time'') le_zero) (\<lambda>bad_time.
         if bad_time then Inl ValueError else
         bind_err (bind_err (getitem data ''file_size_mb'') le_zero) (\<lambda>bad_size.
           if bad_size then Inl ValueError else
           bind_err (bind_err (getitem data ''realtime_factor'') le_zero) (\<lambda>bad_factor.
             Inr (if bad_factor then data(''realtime_factor'' \<mapsto> PFloat 1) else data)))))"

text \<open>
  The file system is the map from the paths that exist to their sizes in bytes, and the
  set of paths that \<^verbatim>\<open>os.remove\<close> cannot delete (it raises \<^verbatim>\<open>OSError\<close> there).
\<close>

record filesystem =
  files :: "string \<rightharpoonup> nat"
  protected :: "string set"

definition os_path_exists :: "filesystem \<Rightarrow> string \<Rightarrow> bool" where
  "os_path_exists fs p \<longleftrightarrow> files fs p \<noteq> None"

definition os_remove :: "filesystem \<Rightarrow> string \<Rightarrow> py_error + filesystem" where
  "os_remove fs p =
     (if files fs p = None \<or> p \<in> protected fs then Inl OSError
      else Inr (fs\<lparr>files := (files fs)(p := None)\<rparr>))"

definition basename :: "string \<Rightarrow> string" where
  \<comment> \<open>\<^verbatim>\<open>os.path.basename\<close>: what follows the last slash\<close>
  "basename p = rev (takeWhile (\<lambda>c. c \<noteq> CHR ''/'') (rev p))"

text \<open>
  An entry whose Python type is not that of its column cannot be bound to the INSERT; the
  model takes that as a failure of the flush. What a database driver would coerce instead
  is outside the model.
\<close>

fun col_string :: "pyval \<Rightarrow> py_error + string" where
  "col_string (PStr s) = Inr s"
| "col_string v = Inl StatementError"

fun col_string_null :: "pyval \<Rightarrow> py_error + string option" where
  "col_string_null PNone = Inr None"
| "col_string_null (PStr s) = Inr (Some s)"
| "col_string_null v = Inl StatementError"

fun col_float :: "pyval \<Rightarrow> py_error + rat" where
  "col_float (PFloat r) = Inr r"
| "col_float (PInt i) = Inr (of_int i)"
| "col_float (PBool b) = Inr (if b then 1 else 0)"
| "col_float v = Inl StatementError"

fun col_integer :: "pyval \<Rightarrow> py_error + int" where
  "col_integer (PInt i) = Inr i"
| "col_integer (PBool b) = Inr (if b then 1 else 0)"
| "col_integer v = Inl StatementError"

fun col_integer_null :: "pyval \<Rightarrow> py_error + int option" where
  "col_integer_null PNone = Inr None"
| "col_integer_null v = bind_err (col_integer v) (\<lambda>i. Inr (Some i))"

definition new_generation :: "datetime \<Rightarrow> (string \<rightharpoonup> pyval) \<Rightarrow> py_error + MusicGeneration" where
  \<comment> \<open>the constructor call \<^verbatim>\<open>MusicGeneration(...)\<close> and the column values of the INSERT;
      \<^verbatim>\<open>created_at\<close> has the server default \<^verbatim>\<open>func.now()\<close>\<close>
  "new_generation db_now clean_data =
     bind_err (bind_err (getitem clean_data ''generation_id'') col_string) (\<lambda>gid.
     bind_err (bind_err (getitem clean_data ''prompt'') col_string) (\<lambda>pr.
     bind_err (bind_err (getitem clean_data ''status'') col_string) (\<lambda>st.
     bind_err (bind_err (getitem clean_data ''device'') col_string) (\<lambda>dev.
     bind_err (bind_err (getitem clean_data ''precision'') col_string) (\<lambda>prec.
     bind_err (bind_err (getitem clean_data ''generation_time'') col_float) (\<lambda>gt.
     bind_err (bind_err (getitem clean_data ''realtime_factor'') col_float) (\<lambda>rf.
     bind_err (col_string_null (get clean_data ''file_path'')) (\<lambda>fp.
     bind_err (col_string_null (get clean_data ''audio_url'')) (\<lambda>url.
     bind_err (bind_err (getitem clean_data ''file_size_mb'') col_float) (\<lambda>sz.
     bind_err (bind_err (getitem clean_data ''duration'') col_float) (\<lambda>dur.
     bind_err (bind_err (getitem clean_data ''sample_rate'') col_integer) (\<lambda>sr.
     bind_err (col_integer_null (get clean_data ''user_id'')) (\<lambda>uid.
     bind_err (bind_err (getitem clean_data ''model_version'') col_string) (\<lambda>mv.
       Inr \<lparr>generation_id = gid, prompt = pr, status = st, device = dev,
            precision = prec, generation_time = gt, realtime_factor = rf,
            file_path = fp, audio_url = url, file_size_mb = sz, duration = dur,
            sample_rate = sr, play_count = 0, download_count = 0,
            is_favorited = False, last_played = None, created_at = db_now,
            updated_at = None, user_id = uid, error_message = None,
            model_version = mv\<rparr>))))))))))))))"

definition session_add :: "session \<Rightarrow> MusicGeneration \<Rightarrow> py_error + session" where
  \<comment> \<open>\<^verbatim>\<open>session.add\<close> and \<^verbatim>\<open>session.commit\<close>: column \<^verbatim>\<open>generation_id\<close> is unique\<close>
  "session_add s g =
     (if generation_id g \<in> set (map generation_id (music_generations s))
      then Inl IntegrityError
      else Inr (s\<lparr>music_generations := music_generations s @ [g]\<rparr>))"

definition measured :: "filesystem \<Rightarrow> string option \<Rightarrow> (string \<rightharpoonup> pyval) \<Rightarrow> (string \<rightharpoonup> pyval)" where
  \<comment> \<open>\<^verbatim>\<open>if file_path and os.path.exists(file_path)\<close>: the measured size, the path and the URL\<close>
  "measured fs path clean_data =
     (case path of
        None \<Rightarrow> clean_data
      | Some p \<Rightarrow>
          (case (if p = [] then None else files fs p) of
             None \<Rightarrow> clean_data
           | Some size_bytes \<Rightarrow>
               clean_data
                 (''file_size_mb'' \<mapsto> PFloat (round2 (of_nat size_bytes / (1024 * 1024))),
                  ''file_path'' \<mapsto> PStr p,
                  ''audio_url'' \<mapsto> PStr (''/audio/'' @ basename p))))"

definition create_generation_record ::
  "(pyval \<Rightarrow> string) \<Rightarrow> (string \<Rightarrow> rat option) \<Rightarrow> filesystem \<Rightarrow> datetime \<Rightarrow> session
     \<Rightarrow> (string \<rightharpoonup> pyval) \<Rightarrow> string option \<Rightarrow> session \<times> MusicGeneration option" where
  "create_generation_record str_of float_of_str fs db_now s generation_data path =
     (case bind_err (validate_generation_data str_of float_of_str generation_data)
             (\<lambda>clean_data.
                bind_err (new_generation db_now (measured fs path clean_data))
                  (\<lambda>generation.
                     bind_err (session_add s generation) (\<lambda>s'. Inr (s', generation)))) of
        Inl e \<Rightarrow> (s, None)
      | Inr (s', generation) \<Rightarrow> (s', Some generation))"

section \<open>Statistics\<close>

record device_stats =
  count :: int
  avg_time :: rat

record generation_stats =
  period_days :: int
  total_generations :: int
  successful_generations :: int
  failed_generations :: int
  success_rate :: rat
  avg_generation_time :: rat
  avg_realtime_factor :: rat
  total_file_size_mb :: rat
  avg_file_size_mb :: rat
  total_plays :: int
  total_downloads :: int
  total_favorites :: int
  device_breakdown :: "(string \<times> device_stats) list"
  recent_24h_generations :: int
  calculated_at :: datetime

datatype stats_report =
  Stats generation_stats
  | StatsError py_error int
    \<comment> \<open>the report of the handler: the error, \<^verbatim>\<open>period_days\<close>, the three counts 0 and
        \<^verbatim>\<open>success_rate\<close> 0.0\<close>

definition add_device ::
  "(string \<times> int \<times> rat \<times> rat) list \<Rightarrow> MusicGeneration
     \<Rightarrow> (string \<times> int \<times> rat \<times> rat) list" where
  \<comment> \<open>one round of the loop over \<^verbatim>\<open>successful_gens\<close>; the dictionary keeps the order in
      which the devices were met, an entry is (count, avg_time, total_time)\<close>
  "add_device stats gen =
     (let stats1 = (if map_of stats (device gen) = None
                    then stats @ [(device gen, (0, 0, 0))] else stats)
      in map (\<lambda>(d, c, a, t).
                if d = device gen then (d, c + 1, a, t + generation_time gen)
                else (d, c, a, t)) stats1)"

fun device_averages ::
  "(string \<times> int \<times> rat \<times> rat) list \<Rightarrow> py_error + (string \<times> device_stats) list" where
  \<comment> \<open>\<^verbatim>\<open>stats['avg_time'] = stats['total_time'] / stats['count']; del stats['total_time']\<close>\<close>
  "device_averages [] = Inr []"
| "device_averages ((d, c, a, t) # rest) =
     bind_err (truediv t (of_int c)) (\<lambda>avg.
       bind_err (device_averages rest) (\<lambda>rest'.
         Inr ((d, \<lparr>count = c, avg_time = avg\<rparr>) # rest')))"

definition performance :: "MusicGeneration list \<Rightarrow> py_error + rat \<times> rat \<times> rat \<times> rat" where
  \<comment> \<open>the branch \<^verbatim>\<open>if successful_gens: ... else: ...\<close>: avg_generation_time,
      avg_realtime_factor, total_file_size and avg_file_size\<close>
  "performance successful_gens =
     (if successful_gens \<noteq> [] then
        bind_err (truediv (sum_list (map generation_time successful_gens))
                    (of_nat (length successful_gens))) (\<lambda>avg_gt.
        bind_err (truediv (sum_list (map realtime_factor successful_gens))
                    (of_nat (length successful_gens))) (\<lambda>avg_rf.
        bind_err (truediv (sum_list (map file_size_mb successful_gens))
                    (of_nat (length successful_gens))) (\<lambda>avg_fs.
          Inr (avg_gt, avg_rf, sum_list (map file_size_mb successful_gens), avg_fs))))
      else Inr (0, 0, 0, 0))"

definition get_generation_stats :: "datetime \<Rightarrow> datetime \<Rightarrow> session \<Rightarrow> int \<Rightarrow> stats_report" where
  \<comment> \<open>\<open>end_date\<close> is the first reading of \<^verbatim>\<open>datetime.utcnow()\<close>, \<open>later\<close> the one that
      stamps the report\<close>
  "get_generation_stats end_date later s days =
     (case
        bind_err (timedelta_days days) (\<lambda>delta.
        bind_err (datetime_sub end_date delta) (\<lambda>start_date.
          let base_query = filter (\<lambda>g. start_date \<le> created_at g) (music_generations s);
              total = int (length base_query);
              successful = int (length (filter (\<lambda>g. status g = ''completed'') base_query));
              failed = int (length (filter (\<lambda>g. status g = ''failed'') base_query))
          in
          bind_err (truediv (of_int successful) (of_int (max total 1))) (\<lambda>quotient.
          let successful_gens = filter (\<lambda>g. status g = ''completed'') base_query in
          bind_err (performance successful_gens) (\<lambda>(avg_gt, avg_rf, total_fs, avg_fs).
          bind_err (device_averages (foldl add_device [] successful_gens)) (\<lambda>devices.
          bind_err (datetime_sub end_date (timedelta_hours 24)) (\<lambda>recent_start.
            Inr \<lparr>period_days = days,
                 total_generations = total,
                 successful_generations = successful,
                 failed_generations = failed,
                 success_rate = round2 (quotient * 100),
                 avg_generation_time = round2 avg_gt,
                 avg_realtime_factor = round2 avg_rf,
                 total_file_size_mb = round2 total_fs,
                 avg_file_size_mb = round2 avg_fs,
                 total_plays = sum_list (map play_count successful_gens),
                 total_downloads = sum_list (map download_count successful_gens),
                 total_favorites = int (length (filter is_favorited successful_gens)),
                 device_breakdown = devices,
                 recent_24h_generations =
                   int (length (filter (\<lambda>g. recent_start \<le> created_at g)
                                  (music_generations s))),
                 calculated_at = later\<rparr>)))))) of
        Inl e \<Rightarrow> StatsError e days
      | Inr r \<Rightarrow> Stats r)"

definition get_stats :: "datetime \<Rightarrow> datetime \<Rightarrow> session \<Rightarrow> int \<Rightarrow> stats_report" where
  \<comment> \<open>the handler of \<^verbatim>\<open>GET /stats\<close> in \<^verbatim>\<open>main.py\<close>, with the database available:
      \<^verbatim>\<open>DatabaseOperations.get_generation_stats(db, max(1, min(days, 365)))\<close>\<close>
  "get_stats end_date later s days =
     get_generation_stats end_date later s (max 1 (min days 365))"

text \<open>
  Both shapes of the report have the keys \<^verbatim>\<open>total_generations\<close>,
  \<^verbatim>\<open>successful_generations\<close>, \<^verbatim>\<open>failed_generations\<close> and \<^verbatim>\<open>success_rate\<close>; the
  next four functions read them.
\<close>

fun total_of :: "stats_report \<Rightarrow> int" where
  \<comment> \<open>\<^verbatim>\<open>report["total_generations"]\<close>, a key of both shapes of the report\<close>
  "total_of (Stats r) = total_generations r"
| "total_of (StatsError e d) = 0"

fun successful_of :: "stats_report \<Rightarrow> int" where
  "successful_of (Stats r) = successful_generations r"
| "successful_of (StatsError e d) = 0"

fun failed_of :: "stats_report \<Rightarrow> int" where
  "failed_of (Stats r) = failed_generations r"
| "failed_of (StatsError e d) = 0"

fun success_rate_of :: "stats_report \<Rightarrow> rat" where
  "success_rate_of (Stats r) = success_rate r"
| "success_rate_of (StatsError e d) = 0"

definition device_table ::
  "MusicGeneration list \<Rightarrow> (string \<times> int \<times> rat \<times> rat) list \<Rightarrow> bool" where
  \<comment> \<open>what the device dictionary holds after the loop has read the rows \<open>gens\<close>\<close>
  "device_table gens stats \<longleftrightarrow>
     distinct (map fst stats) \<and>
     set (map fst stats) = set (map device gens) \<and>
     (\<forall>(d, c, a, t) \<in> set stats.
        c = int (length (filter (\<lambda>g. device g = d) gens)) \<and>
        t = sum_list (map generation_time (filter (\<lambda>g. device g = d) gens)))"

section \<open>Retention and cleanup\<close>

datatype cleanup_report =
  DryRun (generations_to_delete: int) (cutoff_date: datetime) (keep_favorites: bool)
  | Cleaned (deleted_records: int) (deleted_files: int) (cutoff_date: datetime)
      (keep_favorites: bool)
  | CleanupError py_error

fun delete_loop ::
  "filesystem \<Rightarrow> MusicGeneration list \<Rightarrow> int \<Rightarrow> int \<Rightarrow> MusicGeneration list
     \<Rightarrow> filesystem \<times> int \<times> int \<times> MusicGeneration list" where
  \<comment> \<open>the loop \<^verbatim>\<open>for gen in generations_to_delete\<close>; \<open>marked\<close> are the rows given to
      \<^verbatim>\<open>session.delete\<close>. The handler of \<^verbatim>\<open>OSError\<close> only logs.\<close>
  "delete_loop fs [] files_done records_done marked = (fs, files_done, records_done, marked)"
| "delete_loop fs (gen # gens) files_done records_done marked =
     (case (case file_path gen of
              None \<Rightarrow> (fs, files_done)
            | Some p \<Rightarrow>
                if p \<noteq> [] \<and> os_path_exists fs p then
                  (case os_remove fs p of
                     Inl e \<Rightarrow> (fs, files_done)
                   | Inr fs' \<Rightarrow> (fs', files_done + 1))
                else (fs, files_done)) of
        (fs1, files1) \<Rightarrow> delete_loop fs1 gens files1 (records_done + 1) (marked @ [gen]))"

definition candidates :: "datetime \<Rightarrow> bool \<Rightarrow> MusicGeneration list \<Rightarrow> MusicGeneration list" where
  \<comment> \<open>the deletion query: \<^verbatim>\<open>created_at < cutoff_date\<close>, and \<^verbatim>\<open>is_favorited == False\<close>
      when favorites are kept\<close>
  "candidates cutoff keep rows =
     (let query = filter (\<lambda>g. created_at g < cutoff) rows
      in if keep then filter (\<lambda>g. is_favorited g = False) query else query)"

definition cleanup_old_generations ::
  "datetime \<Rightarrow> filesystem \<Rightarrow> session \<Rightarrow> int \<Rightarrow> bool \<Rightarrow> bool
     \<Rightarrow> session \<times> filesystem \<times> cleanup_report" where
  "cleanup_old_generations utcnow fs s days_to_keep keep dry_run =
     (case bind_err (timedelta_days days_to_keep) (datetime_sub utcnow) of
        Inl e \<Rightarrow> (s, fs, CleanupError e)
      | Inr cutoff \<Rightarrow>
          (let to_delete = candidates cutoff keep (music_generations s)
           in if dry_run then (s, fs, DryRun (int (length to_delete)) cutoff keep)
              else (case delete_loop fs to_delete 0 0 [] of
                      (fs', files_done, records_done, marked) \<Rightarrow>
                        (s\<lparr>music_generations :=
                             filter (\<lambda>g. g \<notin> set marked) (music_generations s)\<rparr>,
                         fs', Cleaned records_done files_done cutoff keep))))"

section \<open>Health\<close>







section \<open>Example data\<close>

definition example_row :: MusicGeneration where
  "example_row =
     \<lparr>generation_id = ''g1'', prompt = ''calm piano'', status = ''completed'',
      device = ''cpu'', precision = ''float32'', generation_time = 3,
      realtime_factor = 1, file_path = Some ''/out/g1.wav'', audio_url = None,
      file_size_mb = 2, duration = 30, sample_rate = 32000, play_count = 0,
      download_count = 0, is_favorited = False, last_played = None,
      created_at = 63929386800000000, updated_at = None, user_id = None,
      error_message = None,
      model_version = ''musicgen-small''\<rparr>"

definition example_session :: session where
  "example_session = \<lparr>music_generations = [example_row], system_metrics = []\<rparr>"

definition example_data :: "string \<rightharpoonup> pyval" where
  "example_data =
     [''generation_id'' \<mapsto> PStr ''g2'', ''prompt'' \<mapsto> PStr ''slow jazz'',
      ''device'' \<mapsto> PStr ''cpu'', ''generation_time'' \<mapsto> PFloat 4,
      ''file_size_mb'' \<mapsto> PFloat 2]"

definition example_fs :: filesystem where
  "example_fs = \<lparr>files = [''/out/g1.wav'' \<mapsto> 2097152], protected = {}\<rparr>"

definition no_float :: "string \<Rightarrow> rat option" where
  "no_float str = None"

definition some_str :: "pyval \<Rightarrow> string" where
  "some_str v = ''?''"

definition old_row :: MusicGeneration where
  "old_row = example_row\<lparr>generation_id := ''g0'', file_path := Some ''/out/g0.wav'',
                          created_at := 63920000000000000\<rparr>"

definition old_favorite :: MusicGeneration where
  "old_favorite = example_row\<lparr>generation_id := ''g3'', file_path := Some ''/out/g3.wav'',
                               created_at := 63920000000000000, is_favorited := True\<rparr>"

definition cleanup_session :: session where
  "cleanup_session =
     \<lparr>music_generations = [old_row, old_favorite, example_row\<lparr>created_at := 63929386800000000\<rparr>],
      system_metrics = []\<rparr>"

definition cleanup_fs :: filesystem where
  "cleanup_fs =
     \<lparr>files = [''/out/g0.wav'' \<mapsto> 2097152, ''/out/g3.wav'' \<mapsto> 1048576],
      protected = {''/out/g0.wav''}\<rparr>"

definition stats_session :: session where
  \<open>stats_session =
     \<lparr>music_generations =
        [example_row\<lparr>created_at := 63929386800000000, generation_time := 1\<rparr>,
         example_row\<lparr>generation_id := ''g2'', created_at := 63929386800000000,
                      status := ''failed''\<rparr>,
         example_row\<lparr>generation_id := ''g3'', created_at := 63929386800000000,
                      status := ''failed''\<rparr>,
         example_row\<lparr>generation_id := ''g4'', created_at := 63894830400000000\<rparr>],
      system_metrics = []\<rparr>\<close>





definition clean_example :: "string \<rightharpoonup> pyval" where
  "clean_example =
   example_data(''status'' \<mapsto> PStr ''completed'', ''precision'' \<mapsto> PStr ''float32'',
      ''realtime_factor'' \<mapsto> PFloat 1, ''duration'' \<mapsto> PFloat 30,
      ''sample_rate'' \<mapsto> PInt 32000, ''play_count'' \<mapsto> PInt 0,
      ''download_count'' \<mapsto> PInt 0, ''is_favorited'' \<mapsto> PBool False,
      ''model_version'' \<mapsto> PStr ''musicgen-small'')"

section \<open>Properties\<close>

lemma query_first_Some:
  "query_first p xs = Some i \<Longrightarrow> i < length xs \<and> p (xs ! i) \<and> (\<forall>j<i. \<not> p (xs ! j))"
proof (induction xs arbitrary: i)
  case Nil
  then show ?case by simp
next
  case (Cons x xs)
  show ?case
  proof (cases "p x")
    case True
    with Cons.prems show ?thesis by simp
  next
    case False
    with Cons.prems obtain k where k: "query_first p xs = Some k" "i = Suc k"
      by auto
    from Cons.IH [OF k(1)] False k(2) show ?thesis
      by (auto simp: less_Suc_eq_0_disj)
  qed
qed

lemma query_first_None: "query_first p xs = None \<longleftrightarrow> (\<forall>x\<in>set xs. \<not> p x)"
  by (induction xs) auto

lemma query_first_mem:
  "x \<in> set xs \<Longrightarrow> p x \<Longrightarrow> \<exists>i. query_first p xs = Some i"
  by (induction xs) auto

lemma query_first_update:
  assumes "query_first p xs = Some i" "p y"
  shows "query_first p (xs[i := y]) = Some i"
  using assms
proof (induction xs arbitrary: i)
  case Nil then show ?case by simp
next
  case (Cons x xs)
  then show ?case by (cases "p x") (auto)
qed

subsection \<open>Favorites\<close>

text \<open>
  C6. \<^verbatim>\<open>toggle_favorite\<close> is its own inverse. For an identifier that some row carries, the
  first call returns the negation of the row's flag and stores it, the second call returns
  the original flag and stores it, so that after two calls every row has the flag it had.
  For an identifier that no row carries the call returns \<open>None\<close>, which is not the
  boolean \<open>Some False\<close>, and the session is unchanged.
\<close>

theorem toggle_favorite_twice:
  "(gid \<notin> set (map generation_id (music_generations s)) \<longrightarrow>
      toggle_favorite t1 s gid = (s, None)) \<and>
   (gid \<in> set (map generation_id (music_generations s)) \<longrightarrow>
      (\<exists>i<length (music_generations s).
         generation_id (music_generations s ! i) = gid \<and>
         (let b = is_favorited (music_generations s ! i);
              s1 = fst (toggle_favorite t1 s gid);
              s2 = fst (toggle_favorite t2 s1 gid)
          in snd (toggle_favorite t1 s gid) = Some (\<not> b) \<and>
             is_favorited (music_generations s1 ! i) = (\<not> b) \<and>
             snd (toggle_favorite t2 s1 gid) = Some b \<and>
             is_favorited (music_generations s2 ! i) = b \<and>
             map is_favorited (music_generations s2) = map is_favorited (music_generations s))))"
proof (intro conjI impI)
  assume "gid \<notin> set (map generation_id (music_generations s))"
  then have "query_first (\<lambda>g. generation_id g = gid) (music_generations s) = None"
    by (auto simp: query_first_None)
  then show "toggle_favorite t1 s gid = (s, None)"
    by (simp add: toggle_favorite_def)
next
  let ?p = "\<lambda>g. generation_id g = gid"
  let ?rows = "music_generations s"
  assume "gid \<in> set (map generation_id ?rows)"
  then obtain i where i: "query_first ?p ?rows = Some i"
    using query_first_mem [of _ ?rows ?p] by auto
  from query_first_Some [OF i] have il: "i < length ?rows" and ip: "generation_id (?rows ! i) = gid"
    by auto
  let ?g1 = "flush_update t1 (fst (toggle_favorite_row (?rows ! i)))"
  have t1: "toggle_favorite t1 s gid =
      (s\<lparr>music_generations := ?rows[i := ?g1]\<rparr>, Some (\<not> is_favorited (?rows ! i)))"
    using i by (simp add: toggle_favorite_def toggle_favorite_row_def Let_def)
  have p1: "?p ?g1"
    using ip by (simp add: flush_update_def toggle_favorite_row_def Let_def)
  have i1: "query_first ?p (?rows[i := ?g1]) = Some i"
    by (rule query_first_update [OF i p1])
  let ?g2 = "flush_update t2 (fst (toggle_favorite_row ?g1))"
  have t2: "toggle_favorite t2 (s\<lparr>music_generations := ?rows[i := ?g1]\<rparr>) gid =
      (s\<lparr>music_generations := ?rows[i := ?g2]\<rparr>, Some (is_favorited (?rows ! i)))"
    using i1 il
    by (simp add: toggle_favorite_def toggle_favorite_row_def Let_def flush_update_def)
  have f2: "is_favorited ?g2 = is_favorited (?rows ! i)"
    by (simp add: toggle_favorite_row_def Let_def flush_update_def)
  have m: "map is_favorited (?rows[i := ?g2]) = map is_favorited ?rows"
    using il f2 by (simp add: map_update list_update_same_conv)
  show "\<exists>i<length ?rows. generation_id (?rows ! i) = gid \<and>
         (let b = is_favorited (?rows ! i);
              s1 = fst (toggle_favorite t1 s gid);
              s2 = fst (toggle_favorite t2 s1 gid)
          in snd (toggle_favorite t1 s gid) = Some (\<not> b) \<and>
             is_favorited (music_generations s1 ! i) = (\<not> b) \<and>
             snd (toggle_favorite t2 s1 gid) = Some b \<and>
             is_favorited (music_generations s2 ! i) = b \<and>
             map is_favorited (music_generations s2) = map is_favorited ?rows)"
  proof (intro exI conjI)
    show "i < length ?rows" by (rule il)
    show "generation_id (?rows ! i) = gid" by (rule ip)
    show "let b = is_favorited (?rows ! i);
              s1 = fst (toggle_favorite t1 s gid);
              s2 = fst (toggle_favorite t2 s1 gid)
          in snd (toggle_favorite t1 s gid) = Some (\<not> b) \<and>
             is_favorited (music_generations s1 ! i) = (\<not> b) \<and>
             snd (toggle_favorite t2 s1 gid) = Some b \<and>
             is_favorited (music_generations s2 ! i) = b \<and>
             map is_favorited (music_generations s2) = map is_favorited ?rows"
      unfolding Let_def t1 fst_conv snd_conv t2
      using il m f2 by (simp add: toggle_favorite_row_def flush_update_def)
  qed
qed

theorem toggle_favorite_twice_witness:
  "toggle_favorite 63929390400000000 example_session ''g1'' =
     (example_session\<lparr>music_generations :=
        [example_row\<lparr>is_favorited := True, updated_at := Some 63929390400000000\<rparr>]\<rparr>, Some True) \<and>
   snd (toggle_favorite 63929390400000007
          (fst (toggle_favorite 63929390400000000 example_session ''g1'')) ''g1'') =
     Some False \<and>
   map is_favorited
     (music_generations
        (fst (toggle_favorite 63929390400000007
                (fst (toggle_favorite 63929390400000000 example_session ''g1'')) ''g1''))) =
     [False] \<and>
   toggle_favorite 63929390400000000 example_session ''zz'' = (example_session, None)"
  using toggle_favorite_twice
      [of "''g1''" example_session 63929390400000000 63929390400000007]
    toggle_favorite_twice
      [of "''zz''" example_session 63929390400000000 63929390400000007]
  by (simp add: example_session_def example_row_def toggle_favorite_def
      toggle_favorite_row_def flush_update_def Let_def)

subsection \<open>Play counter\<close>

text \<open>
  C7, as amended. For an identifier that no row carries, \<^verbatim>\<open>record_play\<close> returns
  \<open>False\<close> and the session is unchanged. For an identifier that some row carries it
  returns \<open>True\<close>, and the session differs in one row only, the one found: its
  \<^verbatim>\<open>play_count\<close> is one more, its \<^verbatim>\<open>last_played\<close> is the clock of the call, and its
  \<^verbatim>\<open>updated_at\<close> is the clock of the database (the column's \<^verbatim>\<open>onupdate\<close> default).
  Every other field of the row and every other row is as before.
\<close>

theorem record_play_effect:
  "(gid \<notin> set (map generation_id (music_generations s)) \<longrightarrow>
      record_play utcnow db_now s gid play_duration = (s, False)) \<and>
   (gid \<in> set (map generation_id (music_generations s)) \<longrightarrow>
      (\<exists>i<length (music_generations s).
         generation_id (music_generations s ! i) = gid \<and>
         record_play utcnow db_now s gid play_duration =
           (s\<lparr>music_generations :=
                (music_generations s)
                  [i := (music_generations s ! i)
                          \<lparr>play_count := play_count (music_generations s ! i) + 1,
                           last_played := Some utcnow,
                           updated_at := Some db_now\<rparr>]\<rparr>,
            True)))"
proof (intro conjI impI)
  assume "gid \<notin> set (map generation_id (music_generations s))"
  then have "query_first (\<lambda>g. generation_id g = gid) (music_generations s) = None"
    by (auto simp: query_first_None)
  then show "record_play utcnow db_now s gid play_duration = (s, False)"
    by (simp add: record_play_def)
next
  let ?p = "\<lambda>g. generation_id g = gid"
  let ?rows = "music_generations s"
  assume "gid \<in> set (map generation_id ?rows)"
  then obtain i where i: "query_first ?p ?rows = Some i"
    using query_first_mem [of _ ?rows ?p] by auto
  from query_first_Some [OF i] have il: "i < length ?rows" and ip: "generation_id (?rows ! i) = gid"
    by auto
  have "record_play utcnow db_now s gid play_duration =
           (s\<lparr>music_generations :=
                ?rows[i := (?rows ! i)\<lparr>play_count := play_count (?rows ! i) + 1,
                           last_played := Some utcnow, updated_at := Some db_now\<rparr>]\<rparr>, True)"
    using i by (simp add: record_play_def increment_play_count_def flush_update_def Let_def)
  with il ip show "\<exists>i<length ?rows. generation_id (?rows ! i) = gid \<and>
         record_play utcnow db_now s gid play_duration =
           (s\<lparr>music_generations :=
                ?rows[i := (?rows ! i)\<lparr>play_count := play_count (?rows ! i) + 1,
                           last_played := Some utcnow, updated_at := Some db_now\<rparr>]\<rparr>, True)"
    by blast
qed

theorem record_play_effect_witness:
  "record_play 63929390400000000 63929390400000001 example_session ''g1'' (Some 12) =
     (example_session\<lparr>music_generations :=
        [example_row\<lparr>play_count := 1, last_played := Some 63929390400000000,
                     updated_at := Some 63929390400000001\<rparr>]\<rparr>, True) \<and>
   record_play 63929390400000000 63929390400000001 example_session ''zz'' None =
     (example_session, False)"
  using record_play_effect
      [of "''g1''" example_session 63929390400000000 63929390400000001 "Some 12"]
    record_play_effect
      [of "''zz''" example_session 63929390400000000 63929390400000001 None]
  by (simp add: example_session_def example_row_def)

text \<open>
  C7 as stated says that no field of the row other than \<^verbatim>\<open>play_count\<close> and
  \<^verbatim>\<open>last_played\<close> changes. Column \<^verbatim>\<open>updated_at\<close> does: a row never updated before has
  it set by the first play.
\<close>

theorem record_play_updated_at_counterexample:
  "updated_at (music_generations example_session ! 0) = None \<and>
   updated_at
     (music_generations
        (fst (record_play 63929390400000000 63929390400000001 example_session ''g1'' None)) ! 0) =
     Some 63929390400000001"
  by (simp add: example_session_def example_row_def record_play_def
      increment_play_count_def flush_update_def)

subsection \<open>Creation\<close>

lemma check_required_fails:
  assumes "distinct (map fst reqs)" and "(field, ty) \<in> set reqs"
    and "data field = None \<or>
         (\<exists>v e. data field = Some v \<and> \<not> isinstance v ty \<and>
                convert str_of float_of_str ty v = Inl e)"
  shows "\<exists>e. check_required str_of float_of_str reqs data = Inl e"
  using assms
proof (induction reqs arbitrary: data)
  case Nil
  then show ?case by simp
next
  case (Cons a reqs)
  obtain g ty' where a: "a = (g, ty')" by (cases a)
  show ?case
  proof (cases "g = field")
    case True
    with Cons.prems a have "ty' = ty"
      by (auto simp: rev_image_eqI)
    with Cons.prems(3) True a show ?thesis
      by (auto split: option.splits)
  next
    case False
    with Cons.prems a have mem: "(field, ty) \<in> set reqs" and d: "distinct (map fst reqs)"
      by auto
    have same: "\<exists>e. check_required str_of float_of_str reqs data = Inl e"
      using Cons.IH [of data, OF d mem] Cons.prems(3) by blast
    have upd: "\<exists>e. check_required str_of float_of_str reqs (data(g \<mapsto> v')) = Inl e" for v'
    proof -
      have "(data(g \<mapsto> v')) field = data field"
        using False by simp
      with Cons.prems(3) show ?thesis
        using Cons.IH [of "data(g \<mapsto> v')", OF d mem] by metis
    qed
    show ?thesis
      using same upd by (auto simp: a split: option.splits sum.splits)
  qed
qed

text \<open>
  C1. When a required field (\<^verbatim>\<open>generation_id\<close>, \<^verbatim>\<open>prompt\<close>, \<^verbatim>\<open>device\<close>,
  \<^verbatim>\<open>generation_time\<close>, \<^verbatim>\<open>file_size_mb\<close>) is absent from the input, or holds a value
  that is not of the expected type and that the conversion to it refuses, then
  \<^verbatim>\<open>validate_generation_data\<close> raises, and \<^verbatim>\<open>create_generation_record\<close> returns
  \<open>None\<close> with the session as it was: no record is stored.
\<close>

theorem create_generation_record_rejects:
  assumes "(field, ty) \<in> set required_fields"
    and "generation_data field = None \<or>
         (\<exists>v e. generation_data field = Some v \<and> \<not> isinstance v ty \<and>
                convert str_of float_of_str ty v = Inl e)"
  shows "(\<exists>e. validate_generation_data str_of float_of_str generation_data = Inl e) \<and>
         create_generation_record str_of float_of_str fs db_now s generation_data path
           = (s, None)"
proof -
  have "distinct (map fst required_fields)"
    by (simp add: required_fields_def)
  from check_required_fails [of required_fields field ty generation_data, OF this assms]
  obtain e where "check_required str_of float_of_str required_fields generation_data = Inl e"
    by blast
  then have v: "validate_generation_data str_of float_of_str generation_data = Inl e"
    by (simp add: validate_generation_data_def bind_err_def)
  then show ?thesis
    by (simp add: create_generation_record_def bind_err_def)
qed

theorem create_generation_record_rejects_witness:
  "create_generation_record some_str no_float example_fs 2000 example_session
     (example_data(''prompt'' := None)) (Some ''/out/g1.wav'') = (example_session, None) \<and>
   create_generation_record some_str no_float example_fs 2000 example_session
     (example_data(''generation_time'' \<mapsto> PStr ''fast'')) None = (example_session, None)"
  using create_generation_record_rejects [of "''prompt''" Str
      "example_data(''prompt'' := None)" some_str no_float example_fs 2000 example_session
      "Some ''/out/g1.wav''"]
    create_generation_record_rejects [of "''generation_time''" Float
      "example_data(''generation_time'' \<mapsto> PStr ''fast'')" some_str no_float example_fs 2000
      example_session None]
  by (simp add: required_fields_def example_data_def no_float_def)

text \<open>
  A valid input is stored: the defaults are filled in and the new row is appended to the
  table.
\<close>

lemma check_required_example: "check_required some_str no_float required_fields example_data = Inr example_data"
  by (simp add: required_fields_def example_data_def)

lemma apply_defaults_example: "apply_defaults defaults example_data =
   example_data(''status'' \<mapsto> PStr ''completed'', ''precision'' \<mapsto> PStr ''float32'',
      ''realtime_factor'' \<mapsto> PFloat 1, ''duration'' \<mapsto> PFloat 30,
      ''sample_rate'' \<mapsto> PInt 32000, ''play_count'' \<mapsto> PInt 0,
      ''download_count'' \<mapsto> PInt 0, ''is_favorited'' \<mapsto> PBool False,
      ''model_version'' \<mapsto> PStr ''musicgen-small'')"
  by (simp add: defaults_def example_data_def)

lemma validate_example: "validate_generation_data some_str no_float example_data = Inr clean_example"
  unfolding validate_generation_data_def check_required_example bind_err_def sum.case Let_def apply_defaults_example
    clean_example_def [symmetric]
  by (simp add: getitem_def clean_example_def example_data_def)

lemma new_generation_example: "new_generation 63929390400000000 clean_example =
    Inr (example_row\<lparr>generation_id := ''g2'', prompt := ''slow jazz'', generation_time := 4,
                       file_path := None, created_at := 63929390400000000\<rparr>)"
  by (simp add: new_generation_def getitem_def get_def clean_example_def example_data_def
      bind_err_def example_row_def)

lemma create_generation_record_example:
  "create_generation_record some_str no_float example_fs 63929390400000000 example_session
     example_data None =
   (example_session
      \<lparr>music_generations :=
         [example_row,
          example_row\<lparr>generation_id := ''g2'', prompt := ''slow jazz'', generation_time := 4,
                       file_path := None, created_at := 63929390400000000\<rparr>]\<rparr>,
    Some (example_row\<lparr>generation_id := ''g2'', prompt := ''slow jazz'', generation_time := 4,
                       file_path := None, created_at := 63929390400000000\<rparr>))"
  unfolding create_generation_record_def validate_example bind_err_def sum.case measured_def option.case new_generation_example
  by (simp add: session_add_def example_session_def example_row_def)

subsection \<open>Retention and cleanup\<close>

lemma delete_loop_result:
  "\<exists>fs' k. delete_loop fs gens files_done records_done marked =
            (fs', files_done + k, records_done + int (length gens), marked @ gens) \<and>
          0 \<le> k \<and> k \<le> int (length gens)"
proof (induction gens arbitrary: fs files_done records_done marked)
  case Nil
  show ?case by simp
next
  case (Cons gen gens)
  define step where "step =
    (case file_path gen of
        None \<Rightarrow> (fs, files_done)
      | Some p \<Rightarrow>
          if p \<noteq> [] \<and> os_path_exists fs p then
            (case os_remove fs p of
               Inl e \<Rightarrow> (fs, files_done)
             | Inr fs' \<Rightarrow> (fs', files_done + 1))
          else (fs, files_done))"
  have bound: "snd step = files_done \<or> snd step = files_done + 1"
    unfolding step_def by (simp split: option.split sum.split)
  from Cons.IH [of "fst step" "snd step" "records_done + 1" "marked @ [gen]"]
  obtain fs' k where k:
    "delete_loop (fst step) gens (snd step) (records_done + 1) (marked @ [gen]) =
       (fs', snd step + k, records_done + 1 + int (length gens), (marked @ [gen]) @ gens)"
    "0 \<le> k" "k \<le> int (length gens)"
    by blast
  have unf: "delete_loop fs (gen # gens) files_done records_done marked =
      delete_loop (fst step) gens (snd step) (records_done + 1) (marked @ [gen])"
    unfolding step_def [symmetric] delete_loop.simps(2) step_def [symmetric]
    by (simp add: case_prod_beta)
  have eq: "delete_loop fs (gen # gens) files_done records_done marked =
      (fs', files_done + (snd step - files_done + k),
       records_done + int (length (gen # gens)), marked @ gen # gens)"
    unfolding unf k(1) by simp
  have "0 \<le> snd step - files_done + k" "snd step - files_done + k \<le> int (length (gen # gens))"
    using bound k(2,3) by auto
  with eq show ?case by blast
qed


text \<open>
  C2. In a destructive run whose cutoff date exists, every candidate row (created before
  the cutoff, and not a favorite when favorites are kept) is deleted and every other row
  is kept, whatever the file system lets \<^verbatim>\<open>os.remove\<close> do: the report counts as deleted
  records the number of candidates, and as deleted files a number between 0 and that.
\<close>

theorem cleanup_deletes_every_candidate:
  assumes "timedelta_days days_to_keep = Inr delta"
    and "datetime_sub utcnow delta = Inr cutoff"
  shows "\<exists>fs' k.
           cleanup_old_generations utcnow fs s days_to_keep keep False =
             (s\<lparr>music_generations :=
                  filter (\<lambda>g. \<not> (created_at g < cutoff \<and> (keep \<longrightarrow> \<not> is_favorited g)))
                    (music_generations s)\<rparr>,
              fs',
              Cleaned
                (int (length (filter (\<lambda>g. created_at g < cutoff \<and> (keep \<longrightarrow> \<not> is_favorited g))
                                (music_generations s))))
                k cutoff keep) \<and>
           0 \<le> k \<and>
           k \<le> int (length (filter (\<lambda>g. created_at g < cutoff \<and> (keep \<longrightarrow> \<not> is_favorited g))
                              (music_generations s)))"
proof -
  let ?c = "\<lambda>g. created_at g < cutoff \<and> (keep \<longrightarrow> \<not> is_favorited g)"
  let ?rows = "music_generations s"
  have cand: "candidates cutoff keep ?rows = filter ?c ?rows"
    by (simp add: candidates_def Let_def conj_commute)
  obtain fs' k where k:
    "delete_loop fs (filter ?c ?rows) 0 0 [] =
       (fs', 0 + k, 0 + int (length (filter ?c ?rows)), [] @ filter ?c ?rows)"
    "0 \<le> k" "k \<le> int (length (filter ?c ?rows))"
    using delete_loop_result [of fs "filter ?c ?rows" 0 0 "[]"] by blast
  have kept: "filter (\<lambda>g. g \<notin> set (filter ?c ?rows)) ?rows = filter (\<lambda>g. \<not> ?c g) ?rows"
    by (rule filter_cong) auto
  have "cleanup_old_generations utcnow fs s days_to_keep keep False =
          (s\<lparr>music_generations := filter (\<lambda>g. \<not> ?c g) ?rows\<rparr>, fs',
           Cleaned (int (length (filter ?c ?rows))) k cutoff keep)"
    using assms k(1) kept by (simp add: cleanup_old_generations_def bind_err_def cand)
  with k(2,3) show ?thesis by blast
qed


theorem cleanup_deletes_every_candidate_witness:
  "cleanup_old_generations 63929390400000000 cleanup_fs cleanup_session 30 False False =
     (cleanup_session\<lparr>music_generations := [example_row\<lparr>created_at := 63929386800000000\<rparr>]\<rparr>,
      cleanup_fs\<lparr>files := [''/out/g0.wav'' \<mapsto> 2097152]\<rparr>, Cleaned 2 1 63926798400000000 False) \<and>
   cleanup_old_generations 63929390400000000 cleanup_fs cleanup_session 30 True False =
     (cleanup_session\<lparr>music_generations :=
        [old_favorite, example_row\<lparr>created_at := 63929386800000000\<rparr>]\<rparr>,
      cleanup_fs, Cleaned 1 0 63926798400000000 True)"
proof -
  have d: "timedelta_days 30 = Inr 2592000000000"
    by (simp add: timedelta_days_def)
  have c: "datetime_sub 63929390400000000 2592000000000 = Inr 63926798400000000"
    by (simp add: datetime_sub_def datetime_max_def)
  have l: "delete_loop cleanup_fs [old_row, old_favorite] 0 0 [] =
      (cleanup_fs\<lparr>files := [''/out/g0.wav'' \<mapsto> 2097152]\<rparr>, 1, 2, [old_row, old_favorite])"
    by (simp add: cleanup_fs_def old_row_def old_favorite_def example_row_def
        os_path_exists_def os_remove_def fun_upd_twist)
  have l': "delete_loop cleanup_fs [old_row] 0 0 [] = (cleanup_fs, 0, 1, [old_row])"
    by (simp add: cleanup_fs_def old_row_def example_row_def os_path_exists_def os_remove_def)
  have all: "cleanup_old_generations 63929390400000000 cleanup_fs cleanup_session 30 False False =
      (cleanup_session\<lparr>music_generations :=
          filter (\<lambda>g. g \<notin> set [old_row, old_favorite]) (music_generations cleanup_session)\<rparr>,
       cleanup_fs\<lparr>files := [''/out/g0.wav'' \<mapsto> 2097152]\<rparr>, Cleaned 2 1 63926798400000000 False)"
    using l by (simp add: cleanup_old_generations_def d c bind_err_def candidates_def
        cleanup_session_def old_row_def old_favorite_def example_row_def)
  have unfav: "cleanup_old_generations 63929390400000000 cleanup_fs cleanup_session 30 True False =
      (cleanup_session\<lparr>music_generations :=
          filter (\<lambda>g. g \<notin> set [old_row]) (music_generations cleanup_session)\<rparr>,
       cleanup_fs, Cleaned 1 0 63926798400000000 True)"
    using l' by (simp add: cleanup_old_generations_def d c bind_err_def candidates_def
        cleanup_session_def old_row_def old_favorite_def example_row_def)
  from cleanup_deletes_every_candidate [OF d c, of cleanup_fs cleanup_session False]
    cleanup_deletes_every_candidate [OF d c, of cleanup_fs cleanup_session True]
  show ?thesis
    unfolding all unfav
    by (simp add: cleanup_session_def old_row_def old_favorite_def example_row_def)
qed

text \<open>
  C3, as amended. A dry run returns the session and the file system it was given, for every
  argument. When the cutoff date exists, the report holds the number of candidates (rows
  created before the cutoff, without the favorites when they are kept), the cutoff, and
  the \<^verbatim>\<open>keep_favorites\<close> flag it was called with; when the cutoff date does not exist
  (\<^verbatim>\<open>OverflowError\<close> of the date arithmetic) the report holds the error only.
\<close>

theorem cleanup_dry_run:
  "cleanup_old_generations utcnow fs s days_to_keep keep True =
     (s, fs,
      case bind_err (timedelta_days days_to_keep) (datetime_sub utcnow) of
        Inl e \<Rightarrow> CleanupError e
      | Inr cutoff \<Rightarrow>
          DryRun
            (int (length (filter (\<lambda>g. created_at g < cutoff \<and> (keep \<longrightarrow> \<not> is_favorited g))
                            (music_generations s))))
            cutoff keep)"
proof (cases "bind_err (timedelta_days days_to_keep) (datetime_sub utcnow)")
  case (Inl e)
  then show ?thesis
    by (simp add: cleanup_old_generations_def)
next
  case (Inr cutoff)
  have "candidates cutoff keep (music_generations s) =
      filter (\<lambda>g. created_at g < cutoff \<and> (keep \<longrightarrow> \<not> is_favorited g)) (music_generations s)"
    by (simp add: candidates_def Let_def conj_commute)
  with Inr show ?thesis
    by (simp add: cleanup_old_generations_def)
qed

theorem cleanup_dry_run_witness:
  "cleanup_old_generations 63929390400000000 cleanup_fs cleanup_session 30 True True =
     (cleanup_session, cleanup_fs, DryRun 1 63926798400000000 True)"
  using cleanup_dry_run [of 63929390400000000 cleanup_fs cleanup_session 30 True]
  by (simp add: timedelta_days_def datetime_sub_def datetime_max_def bind_err_def
      cleanup_session_def old_row_def old_favorite_def example_row_def)

text \<open>
  C3 as stated promises the candidate count and the cutoff for every \<^verbatim>\<open>days_to_keep\<close>.
  \<^verbatim>\<open>timedelta(days=1000000000)\<close> raises \<^verbatim>\<open>OverflowError\<close>, and the dry run then
  returns the error report, which has neither.
\<close>

theorem cleanup_dry_run_overflow_counterexample:
  "cleanup_old_generations 63929390400000000 cleanup_fs cleanup_session 1000000000 True True =
     (cleanup_session, cleanup_fs, CleanupError OverflowError)"
  by (simp add: cleanup_old_generations_def timedelta_days_def bind_err_def)

subsection \<open>Statistics\<close>



lemma performance_result:
  "performance gens =
     Inr (if gens \<noteq> [] then
            (sum_list (map generation_time gens) / of_nat (length gens),
             sum_list (map realtime_factor gens) / of_nat (length gens),
             sum_list (map file_size_mb gens),
             sum_list (map file_size_mb gens) / of_nat (length gens))
          else (0, 0, 0, 0))"
  by (simp add: performance_def truediv_def bind_err_def)

lemma device_table_empty: "device_table [] []"
  by (simp add: device_table_def)

lemma add_device_keys:
  "map fst (add_device stats gen) =
     (if device gen \<in> set (map fst stats) then map fst stats else map fst stats @ [device gen])"
proof -
  have k: "map fst (map (\<lambda>(d, c, a, t).
                if d = device gen then (d, c + 1, a, t + generation_time gen)
                else (d, c, a, t)) xs) = map fst xs" for xs
    by (induction xs) (auto split: prod.splits)
  have n: "map_of stats (device gen) = None \<longleftrightarrow> device gen \<notin> set (map fst stats)"
    by (simp add: map_of_eq_None_iff)
  show ?thesis
    unfolding add_device_def Let_def k n by simp
qed

lemma add_device_entries:
  assumes "(d, c, a, t) \<in> set (add_device stats gen)"
  shows "if d = device gen
         then (\<exists>c0 t0. c = c0 + 1 \<and> t = t0 + generation_time gen \<and>
                 ((d, c0, a, t0) \<in> set stats \<or>
                  (d \<notin> set (map fst stats) \<and> c0 = 0 \<and> t0 = 0)))
         else (d, c, a, t) \<in> set stats"
proof -
  let ?f = "\<lambda>(d, c, a, t).
                if d = device gen then (d, c + 1, a, t + generation_time gen)
                else (d, c, a, t)"
  let ?stats1 = "if map_of stats (device gen) = None
                 then stats @ [(device gen, (0, 0, 0))] else stats"
  from assms obtain e where e: "e \<in> set ?stats1" "?f e = (d, c, a, t)"
    unfolding add_device_def Let_def by auto
  obtain d0 c0 a0 t0 where e0: "e = (d0, c0, a0, t0)"
    by (cases e) auto
  have n: "map_of stats (device gen) = None \<longleftrightarrow> device gen \<notin> set (map fst stats)"
    by (simp add: map_of_eq_None_iff)
  show ?thesis
  proof (cases "d0 = device gen")
    case True
    with e e0 have v: "d = device gen" "c = c0 + 1" "a = a0" "t = t0 + generation_time gen"
      by auto
    from e(1) e0 True have "(d, c0, a, t0) \<in> set stats \<or>
        (d \<notin> set (map fst stats) \<and> c0 = 0 \<and> t0 = 0)"
      unfolding n v by (auto split: if_splits)
    with v show ?thesis by auto
  next
    case False
    with e e0 have v: "d = d0" "c = c0" "a = a0" "t = t0"
      by auto
    from e(1) e0 False have "(d0, c0, a0, t0) \<in> set stats"
      by (auto split: if_splits)
    with v False show ?thesis by auto
  qed
qed

lemma device_table_step:
  assumes "device_table gens stats"
  shows "device_table (gens @ [gen]) (add_device stats gen)"
proof -
  from assms have dist: "distinct (map fst stats)"
    and keys: "set (map fst stats) = set (map device gens)"
    and ent: "\<And>d c a t. (d, c, a, t) \<in> set stats \<Longrightarrow>
        c = int (length (filter (\<lambda>g. device g = d) gens)) \<and>
        t = sum_list (map generation_time (filter (\<lambda>g. device g = d) gens))"
    unfolding device_table_def by auto
  have fresh: "d \<notin> set (map fst stats) \<Longrightarrow> filter (\<lambda>g. device g = d) gens = []" for d
    unfolding keys by (auto simp: filter_empty_conv)
  have 1: "distinct (map fst (add_device stats gen))"
    unfolding add_device_keys using dist by simp
  have 2: "set (map fst (add_device stats gen)) = set (map device (gens @ [gen]))"
    unfolding add_device_keys using keys by auto
  have 3: "c = int (length (filter (\<lambda>g. device g = d) (gens @ [gen]))) \<and>
           t = sum_list (map generation_time (filter (\<lambda>g. device g = d) (gens @ [gen])))"
    if "(d, c, a, t) \<in> set (add_device stats gen)" for d c a t
  proof (cases "d = device gen")
    case True
    with add_device_entries [OF that] obtain c0 t0 where
      v: "c = c0 + 1" "t = t0 + generation_time gen"
      and o: "(d, c0, a, t0) \<in> set stats \<or> (d \<notin> set (map fst stats) \<and> c0 = 0 \<and> t0 = 0)"
      by auto
    from o have "c0 = int (length (filter (\<lambda>g. device g = d) gens)) \<and>
        t0 = sum_list (map generation_time (filter (\<lambda>g. device g = d) gens))"
      using ent fresh by fastforce
    with v True show ?thesis by simp
  next
    case False
    with add_device_entries [OF that] have "(d, c, a, t) \<in> set stats"
      by simp
    from ent [OF this] False show ?thesis by simp
  qed
  show ?thesis
    unfolding device_table_def using 1 2 3 by blast
qed

lemma device_table_foldl: "device_table gens (foldl add_device [] gens)"
proof (induction gens rule: rev_induct)
  case Nil
  show ?case by (simp add: device_table_empty)
next
  case (snoc gen gens)
  then show ?case by (simp add: device_table_step)
qed

lemma device_averages_result:
  assumes "\<forall>(d, c, a, t) \<in> set stats. c \<noteq> 0"
  shows "device_averages stats =
     Inr (map (\<lambda>(d, c, a, t). (d, \<lparr>count = c, avg_time = t / of_int c\<rparr>)) stats)"
  using assms
proof (induction stats)
  case Nil
  show ?case by simp
next
  case (Cons e stats)
  obtain d c a t where e: "e = (d, c, a, t)"
    by (cases e) auto
  with Cons.prems have "c \<noteq> 0" by simp
  moreover from Cons have "device_averages stats =
     Inr (map (\<lambda>(d, c, a, t). (d, \<lparr>count = c, avg_time = t / of_int c\<rparr>)) stats)"
    by simp
  ultimately show ?case
    by (simp add: e truediv_def bind_err_def)
qed

lemma device_table_positive:
  assumes "device_table gens stats" and "(d, c, a, t) \<in> set stats"
  shows "c \<noteq> 0"
proof -
  from assms have "d \<in> set (map device gens)"
    unfolding device_table_def by force
  then have "filter (\<lambda>g. device g = d) gens \<noteq> []"
    by (auto simp: filter_empty_conv)
  moreover from assms have "c = int (length (filter (\<lambda>g. device g = d) gens))"
    unfolding device_table_def by auto
  ultimately show ?thesis by simp
qed

lemma device_breakdown_result:
  "\<exists>stats. device_table gens stats \<and>
     device_averages (foldl add_device [] gens) =
       Inr (map (\<lambda>(d, c, a, t). (d, \<lparr>count = c, avg_time = t / of_int c\<rparr>)) stats)"
proof -
  have "\<forall>(d, c, a, t) \<in> set (foldl add_device [] gens). c \<noteq> 0"
    using device_table_positive [OF device_table_foldl] by blast
  from device_averages_result [OF this] device_table_foldl show ?thesis
    by blast
qed

lemma get_generation_stats_full:
  assumes "timedelta_days days = Inr delta"
    and "datetime_sub end_date delta = Inr start_date"
    and "datetime_sub end_date (timedelta_hours 24) = Inr recent_start"
  shows "\<exists>stats.
    device_table
      (filter (\<lambda>g. status g = ''completed'')
         (filter (\<lambda>g. start_date \<le> created_at g) (music_generations s))) stats \<and>
    get_generation_stats end_date later s days =
      Stats
        (let window = filter (\<lambda>g. start_date \<le> created_at g) (music_generations s);
             done = filter (\<lambda>g. status g = ''completed'') window
         in \<lparr>period_days = days,
              total_generations = int (length window),
              successful_generations = int (length done),
              failed_generations = int (length (filter (\<lambda>g. status g = ''failed'') window)),
              success_rate =
                round2 (of_int (int (length done)) / of_int (max (int (length window)) 1) * 100),
              avg_generation_time =
                round2 (if done \<noteq> [] then sum_list (map generation_time done) / of_nat (length done)
                        else 0),
              avg_realtime_factor =
                round2 (if done \<noteq> [] then sum_list (map realtime_factor done) / of_nat (length done)
                        else 0),
              total_file_size_mb =
                round2 (if done \<noteq> [] then sum_list (map file_size_mb done) else 0),
              avg_file_size_mb =
                round2 (if done \<noteq> [] then sum_list (map file_size_mb done) / of_nat (length done)
                        else 0),
              total_plays = sum_list (map play_count done),
              total_downloads = sum_list (map download_count done),
              total_favorites = int (length (filter is_favorited done)),
              device_breakdown =
                map (\<lambda>(d, c, a, t). (d, \<lparr>count = c, avg_time = t / of_int c\<rparr>)) stats,
              recent_24h_generations =
                int (length (filter (\<lambda>g. recent_start \<le> created_at g) (music_generations s))),
              calculated_at = later\<rparr>)"
proof -
  let ?window = "filter (\<lambda>g. start_date \<le> created_at g) (music_generations s)"
  let ?done = "filter (\<lambda>g. status g = ''completed'') ?window"
  obtain stats where t: "device_table ?done stats"
    and a: "device_averages (foldl add_device [] ?done) =
       Inr (map (\<lambda>(d, c, a, t). (d, \<lparr>count = c, avg_time = t / of_int c\<rparr>)) stats)"
    using device_breakdown_result [of ?done] by blast
  have q: "truediv (of_int (int (length ?done))) (of_int (max (int (length ?window)) 1)) =
      Inr (of_int (int (length ?done)) / of_int (max (int (length ?window)) 1))"
    by (auto simp: truediv_def max_def)
  have "get_generation_stats end_date later s days =
      Stats
        (let window = ?window; done = filter (\<lambda>g. status g = ''completed'') window
         in \<lparr>period_days = days,
              total_generations = int (length window),
              successful_generations = int (length done),
              failed_generations = int (length (filter (\<lambda>g. status g = ''failed'') window)),
              success_rate =
                round2 (of_int (int (length done)) / of_int (max (int (length window)) 1) * 100),
              avg_generation_time =
                round2 (if done \<noteq> [] then sum_list (map generation_time done) / of_nat (length done)
                        else 0),
              avg_realtime_factor =
                round2 (if done \<noteq> [] then sum_list (map realtime_factor done) / of_nat (length done)
                        else 0),
              total_file_size_mb =
                round2 (if done \<noteq> [] then sum_list (map file_size_mb done) else 0),
              avg_file_size_mb =
                round2 (if done \<noteq> [] then sum_list (map file_size_mb done) / of_nat (length done)
                        else 0),
              total_plays = sum_list (map play_count done),
              total_downloads = sum_list (map download_count done),
              total_favorites = int (length (filter is_favorited done)),
              device_breakdown =
                map (\<lambda>(d, c, a, t). (d, \<lparr>count = c, avg_time = t / of_int c\<rparr>)) stats,
              recent_24h_generations =
                int (length (filter (\<lambda>g. recent_start \<le> created_at g) (music_generations s))),
              calculated_at = later\<rparr>)"
    unfolding get_generation_stats_def assms bind_err_def sum.case Let_def q a
      performance_result
    by (simp del: of_int_of_nat_eq)
  with t show ?thesis by blast
qed



lemma stats_session_week:
  "get_generation_stats 63929390400000000 63929390400000001 stats_session 7 =
     Stats
       \<lparr>period_days = 7, total_generations = 3, successful_generations = 1,
        failed_generations = 2, success_rate = 3333 / 100, avg_generation_time = 1,
        avg_realtime_factor = 1, total_file_size_mb = 2, avg_file_size_mb = 2,
        total_plays = 0, total_downloads = 0, total_favorites = 0,
        device_breakdown = [(''cpu'', \<lparr>count = 1, avg_time = 1\<rparr>)],
        recent_24h_generations = 3, calculated_at = 63929390400000001\<rparr>"
  by code_simp


lemma stats_session_totals:
  "total_of (get_generation_stats 63929390400000000 63929390400000001 stats_session 0) = 0"
  "total_of (get_generation_stats 63929390400000000 63929390400000001 stats_session 1) = 3"
  "total_of (get_generation_stats 63929390400000000 63929390400000001 stats_session 365) = 3"
  "total_of (get_generation_stats 63929390400000000 63929390400000001 stats_session 400) = 4"
  "success_rate_of (get_generation_stats 63929390400000000 63929390400000001 stats_session 0) = 0"
  "successful_of (get_generation_stats 63929390400000000 63929390400000001 stats_session 0) = 0"
  "failed_of (get_generation_stats 63929390400000000 63929390400000001 stats_session 0) = 0"
  by code_simp+

lemma example_dates:
  "timedelta_days 7 = Inr 604800000000"
  "datetime_sub 63929390400000000 604800000000 = Inr 63928785600000000"
  "datetime_sub 63929390400000000 (timedelta_hours 24) = Inr 63929304000000000"
  by (simp_all add: timedelta_days_def datetime_sub_def datetime_max_def timedelta_hours_def)




text \<open>
  C8, as amended. \<^verbatim>\<open>get_generation_stats\<close> does not clamp: when its dates exist, its
  window starts exactly \<open>days\<close> days before the clock, and the report repeats \<open>days\<close>
  as given. The clamp to the range from 1 to 365 is applied by the caller, the handler of
  \<^verbatim>\<open>GET /stats\<close>, to the argument it passes.
\<close>

theorem get_stats_clamps_days:
  "get_stats end_date later s days =
     get_generation_stats end_date later s
       (if days < 1 then 1 else if 365 < days then 365 else days) \<and>
   (\<forall>delta start_date recent_start.
      timedelta_days days = Inr delta \<and> datetime_sub end_date delta = Inr start_date \<and>
      datetime_sub end_date (timedelta_hours 24) = Inr recent_start \<longrightarrow>
      start_date = end_date - days * 86400000000 \<and>
      (\<exists>r. get_generation_stats end_date later s days = Stats r \<and>
         period_days r = days \<and>
         total_generations r =
           int (length (filter (\<lambda>g. end_date - days * 86400000000 \<le> created_at g)
                          (music_generations s)))))"
proof (intro conjI allI impI)
  show "get_stats end_date later s days =
     get_generation_stats end_date later s
       (if days < 1 then 1 else if 365 < days then 365 else days)"
    by (simp add: get_stats_def max_def min_def)
next
  fix delta start_date recent_start
  assume "timedelta_days days = Inr delta \<and> datetime_sub end_date delta = Inr start_date \<and>
      datetime_sub end_date (timedelta_hours 24) = Inr recent_start"
  then have a: "timedelta_days days = Inr delta" "datetime_sub end_date delta = Inr start_date"
    "datetime_sub end_date (timedelta_hours 24) = Inr recent_start"
    by auto
  from a(1) have "delta = days * 86400000000"
    by (simp add: timedelta_days_def split: if_splits)
  with a(2) show st: "start_date = end_date - days * 86400000000"
    by (simp add: datetime_sub_def Let_def split: if_splits)
  from get_generation_stats_full [OF a, of s later]
  show "\<exists>r. get_generation_stats end_date later s days = Stats r \<and>
         period_days r = days \<and>
         total_generations r =
           int (length (filter (\<lambda>g. end_date - days * 86400000000 \<le> created_at g)
                          (music_generations s)))"
    unfolding st by (auto simp: Let_def)
qed

theorem get_stats_clamps_days_witness:
  "get_stats 63929390400000000 63929390400000001 stats_session 400 =
     get_generation_stats 63929390400000000 63929390400000001 stats_session 365 \<and>
   get_stats 63929390400000000 63929390400000001 stats_session 0 =
     get_generation_stats 63929390400000000 63929390400000001 stats_session 1 \<and>
   timedelta_days 7 = Inr 604800000000 \<and>
   datetime_sub 63929390400000000 604800000000 = Inr 63928785600000000 \<and>
   datetime_sub 63929390400000000 (timedelta_hours 24) = Inr 63929304000000000 \<and>
   get_stats 63929390400000000 63929390400000001 stats_session 7 =
     Stats
       \<lparr>period_days = 7, total_generations = 3, successful_generations = 1,
        failed_generations = 2, success_rate = 3333 / 100, avg_generation_time = 1,
        avg_realtime_factor = 1, total_file_size_mb = 2, avg_file_size_mb = 2,
        total_plays = 0, total_downloads = 0, total_favorites = 0,
        device_breakdown = [(''cpu'', \<lparr>count = 1, avg_time = 1\<rparr>)],
        recent_24h_generations = 3, calculated_at = 63929390400000001\<rparr>"
proof -
  have concrete: "?thesis"
    by (simp add: get_stats_def stats_session_week example_dates)
  from get_stats_clamps_days [of 63929390400000000 63929390400000001 stats_session 400]
    get_stats_clamps_days [of 63929390400000000 63929390400000001 stats_session 0]
    get_stats_clamps_days [of 63929390400000000 63929390400000001 stats_session 7]
  show ?thesis
    by - (rule concrete)
qed

text \<open>
  C8 as stated has \<^verbatim>\<open>get_generation_stats\<close> treat 0 days as 1 day and 400 days as 365.
  With three rows created an hour before the clock and one created 400 days before it, the
  function counts no row for 0 days and three for 1 day, four rows for 400 days and three
  for 365.
\<close>

theorem get_generation_stats_unclamped_counterexample:
  "total_of (get_generation_stats 63929390400000000 63929390400000001 stats_session 0) = 0 \<and>
   total_of (get_generation_stats 63929390400000000 63929390400000001 stats_session 1) = 3 \<and>
   total_of (get_generation_stats 63929390400000000 63929390400000001 stats_session 400) = 4 \<and>
   total_of (get_generation_stats 63929390400000000 63929390400000001 stats_session 365) = 3"
  by (simp add: stats_session_totals)





subsection \<open>Health\<close>






end
